theory Spec2Isabelle
  imports Complex_Main "HOL-Library.Word" "HOL-Library.Monad_Syntax"
begin

unbundle bit_operations_syntax

section \<open>Celery3D UART cube driver: the model\<close>

text \<open>
  The driver \<^verbatim>\<open>sw/cube_uart.py\<close> (and the two helpers repeated in
  \<^verbatim>\<open>sw/test_uart.py\<close>) is embedded function by function.

  \<^item> Python numbers that hold coordinates, colours and matrix entries are modelled as
    \<^typ>\<open>real\<close>: arithmetic is exact, there is no NaN, no infinity and no rounding of
    products. Every statement below is a statement about this real-valued reading of the
    code.
  \<^item> Python's unbounded integers are \<^typ>\<open>int\<close>; \<^verbatim>\<open><<\<close>, \<^verbatim>\<open>|\<close> and
    \<^verbatim>\<open>&\<close> are \<^const>\<open>push_bit\<close>, \<open>OR\<close> and \<open>AND\<close> on \<^typ>\<open>int\<close>, which
    have Python's two's-complement meaning on negative numbers.
  \<^item> A Python exception is the value \<^const>\<open>None\<close>: an index out of range
    (IndexError), a missing dictionary key (KeyError), a division by zero
    (ZeroDivisionError), a value that \<^verbatim>\<open>struct.pack\<close> refuses (struct.error).
  \<^item> The serial port is the list of the bytes written to it so far.
\<close>

subsection \<open>Constants\<close>

definition SCREEN_WIDTH :: real where
  "SCREEN_WIDTH = 64"

definition SCREEN_HEIGHT :: real where
  "SCREEN_HEIGHT = 64"

definition FP_FRAC_BITS :: nat where
  "FP_FRAC_BITS = 16"

definition CMD_TRIANGLE :: int where
  "CMD_TRIANGLE = 0x03"

subsection \<open>Fixed-point conversion\<close>

text \<open>Python's \<^verbatim>\<open>int(x)\<close> on a float: the integer part, rounding toward zero.\<close>

definition py_int :: "real \<Rightarrow> int" where
  "py_int x = (if 0 \<le> x then \<lfloor>x\<rfloor> else \<lceil>x\<rceil>)"

text \<open>
  \<^verbatim>\<open>
  def float_to_fp(f):
      val = int(f * (1 << FP_FRAC_BITS))
      return val & 0xFFFFFFFF
  \<close>
\<close>

definition float_to_fp :: "real \<Rightarrow> int" where
  "float_to_fp f =
     (let val = py_int (f * real_of_int (push_bit FP_FRAC_BITS 1))
      in val AND 0xFFFFFFFF)"

text \<open>
  Modelled from the spec: the reading of a 32-bit pattern as a signed Q15.16 number
  (the driver only encodes; the decoder is the peripheral). The pattern is taken as a
  two's-complement 32-bit word and divided by \<open>2 ^ 16\<close>.
\<close>

definition q15_16_decode :: "int \<Rightarrow> real" where
  "q15_16_decode p = real_of_int (sint (word_of_int p :: 32 word)) / 2 ^ 16"

text \<open>
  \<^verbatim>\<open>
  def pack_rgb565(r, g, b):
      ri = int(min(r, 1.0) * 31)
      gi = int(min(g, 1.0) * 63)
      bi = int(min(b, 1.0) * 31)
      return (ri << 11) | (gi << 5) | bi
  \<close>
\<close>

definition pack_rgb565 :: "real \<Rightarrow> real \<Rightarrow> real \<Rightarrow> int" where
  "pack_rgb565 r g b =
     (let ri = py_int (min r 1 * 31);
          gi = py_int (min g 1 * 63);
          bi = py_int (min b 1 * 31)
      in (push_bit 11 ri OR push_bit 5 gi) OR bi)"

subsection \<open>Python lists, indexing and loops\<close>

text \<open>
  \<^verbatim>\<open>xs[i]\<close> with a non-negative index: IndexError (here \<^const>\<open>None\<close>) when the index
  is not below the length. The source only indexes with non-negative literals and loop
  counters.
\<close>

definition getitem :: "'a list \<Rightarrow> nat \<Rightarrow> 'a option" where
  "getitem xs i = (if i < length xs then Some (xs ! i) else None)"

text \<open>\<^verbatim>\<open>m[i][j]\<close> as an expression.\<close>

definition getitem2 :: "'a list list \<Rightarrow> nat \<Rightarrow> nat \<Rightarrow> 'a option" where
  "getitem2 m i j = do { row \<leftarrow> getitem m i; getitem row j }"

text \<open>
  \<^verbatim>\<open>m[i][j] = v\<close> as a statement: the row \<open>m[i]\<close> is fetched, then its entry \<open>j\<close>
  is overwritten. The rows of the matrices built in this program are distinct list
  objects, so updating one row leaves the others as they are.
\<close>

definition setitem2 :: "'a list list \<Rightarrow> nat \<Rightarrow> nat \<Rightarrow> 'a \<Rightarrow> 'a list list option" where
  "setitem2 m i j v =
     do { row \<leftarrow> getitem m i;
          if j < length row then Some (m[i := row[j := v]]) else None }"

text \<open>
  A \<^verbatim>\<open>for\<close> loop over a list of index values whose body updates one variable and
  may raise: the first exception ends the loop.
\<close>

fun for_each :: "'i list \<Rightarrow> ('i \<Rightarrow> 's \<Rightarrow> 's option) \<Rightarrow> 's \<Rightarrow> 's option" where
  "for_each [] body s = Some s"
| "for_each (i # rest) body s =
     (case body i s of None \<Rightarrow> None | Some s' \<Rightarrow> for_each rest body s')"

text \<open>\<^verbatim>\<open>range(start, stop, step)\<close> for a positive step.\<close>

definition py_range :: "nat \<Rightarrow> nat \<Rightarrow> nat \<Rightarrow> nat list" where
  "py_range start stop step =
     map (\<lambda>k. start + k * step) [0..<(stop - start + step - 1) div step]"

text \<open>True division \<^verbatim>\<open>a / b\<close>: ZeroDivisionError when the divisor is zero.\<close>

definition py_div :: "real \<Rightarrow> real \<Rightarrow> real option" where
  "py_div a b = (if b = 0 then None else Some (a / b))"

text \<open>\<^verbatim>\<open>math.sqrt(x)\<close>: ValueError on a negative argument.\<close>

definition math_sqrt :: "real \<Rightarrow> real option" where
  "math_sqrt x = (if x < 0 then None else Some (sqrt x))"

subsection \<open>3D math library\<close>

type_synonym vec = "real list"
type_synonym mat4 = "real list list"

definition mat4_identity :: mat4 where
  "mat4_identity =
     [[1, 0, 0, 0],
      [0, 1, 0, 0],
      [0, 0, 1, 0],
      [0, 0, 0, 1]]"

text \<open>
  \<^verbatim>\<open>
  def mat4_multiply(a, b):
      result = [[0]*4 for _ in range(4)]
      for i in range(4):
          for j in range(4):
              for k in range(4):
                  result[i][j] += a[i][k] * b[k][j]
      return result
  \<close>
\<close>

definition mat4_multiply :: "mat4 \<Rightarrow> mat4 \<Rightarrow> mat4 option" where
  "mat4_multiply a b =
     for_each [0..<4] (\<lambda>i.
       for_each [0..<4] (\<lambda>j.
         for_each [0..<4] (\<lambda>k result.
           do { cur \<leftarrow> getitem2 result i j;
                x \<leftarrow> getitem2 a i k;
                y \<leftarrow> getitem2 b k j;
                setitem2 result i j (cur + x * y) })))
       (replicate 4 (replicate 4 0))"

text \<open>
  One line of \<^verbatim>\<open>mat4_transform\<close>:
  \<^verbatim>\<open>m[i][0]*v[0] + m[i][1]*v[1] + m[i][2]*v[2] + m[i][3]*v[3]\<close>.
\<close>

definition mat4_transform_row :: "mat4 \<Rightarrow> vec \<Rightarrow> nat \<Rightarrow> real option" where
  "mat4_transform_row m v i =
     do { m0 \<leftarrow> getitem2 m i 0; v0 \<leftarrow> getitem v 0;
          m1 \<leftarrow> getitem2 m i 1; v1 \<leftarrow> getitem v 1;
          m2 \<leftarrow> getitem2 m i 2; v2 \<leftarrow> getitem v 2;
          m3 \<leftarrow> getitem2 m i 3; v3 \<leftarrow> getitem v 3;
          Some (m0 * v0 + m1 * v1 + m2 * v2 + m3 * v3) }"

text \<open>
  \<^verbatim>\<open>
  def mat4_transform(m, v):
      return [
          m[0][0]*v[0] + m[0][1]*v[1] + m[0][2]*v[2] + m[0][3]*v[3],
          m[1][0]*v[0] + m[1][1]*v[1] + m[1][2]*v[2] + m[1][3]*v[3],
          m[2][0]*v[0] + m[2][1]*v[1] + m[2][2]*v[2] + m[2][3]*v[3],
          m[3][0]*v[0] + m[3][1]*v[1] + m[3][2]*v[2] + m[3][3]*v[3],
      ]
  \<close>
\<close>

definition mat4_transform :: "mat4 \<Rightarrow> vec \<Rightarrow> vec option" where
  "mat4_transform m v =
     do { r0 \<leftarrow> mat4_transform_row m v 0;
          r1 \<leftarrow> mat4_transform_row m v 1;
          r2 \<leftarrow> mat4_transform_row m v 2;
          r3 \<leftarrow> mat4_transform_row m v 3;
          Some [r0, r1, r2, r3] }"

text \<open>\<^verbatim>\<open>return a[0]*b[0] + a[1]*b[1] + a[2]*b[2]\<close>\<close>

definition vec3_dot :: "vec \<Rightarrow> vec \<Rightarrow> real option" where
  "vec3_dot a b =
     do { a0 \<leftarrow> getitem a 0; b0 \<leftarrow> getitem b 0;
          a1 \<leftarrow> getitem a 1; b1 \<leftarrow> getitem b 1;
          a2 \<leftarrow> getitem a 2; b2 \<leftarrow> getitem b 2;
          Some (a0 * b0 + a1 * b1 + a2 * b2) }"

text \<open>\<^verbatim>\<open>return [a[0]-b[0], a[1]-b[1], a[2]-b[2]]\<close>\<close>

definition vec3_sub :: "vec \<Rightarrow> vec \<Rightarrow> vec option" where
  "vec3_sub a b =
     do { a0 \<leftarrow> getitem a 0; b0 \<leftarrow> getitem b 0;
          a1 \<leftarrow> getitem a 1; b1 \<leftarrow> getitem b 1;
          a2 \<leftarrow> getitem a 2; b2 \<leftarrow> getitem b 2;
          Some [a0 - b0, a1 - b1, a2 - b2] }"

text \<open>
  \<^verbatim>\<open>
  return [a[1]*b[2] - a[2]*b[1],
          a[2]*b[0] - a[0]*b[2],
          a[0]*b[1] - a[1]*b[0]]
  \<close>
\<close>

definition vec3_cross :: "vec \<Rightarrow> vec \<Rightarrow> vec option" where
  "vec3_cross a b =
     do { a0 \<leftarrow> getitem a 0; a1 \<leftarrow> getitem a 1; a2 \<leftarrow> getitem a 2;
          b0 \<leftarrow> getitem b 0; b1 \<leftarrow> getitem b 1; b2 \<leftarrow> getitem b 2;
          Some [a1 * b2 - a2 * b1,
                a2 * b0 - a0 * b2,
                a0 * b1 - a1 * b0] }"

text \<open>\<^verbatim>\<open>return [v[0]*s, v[1]*s, v[2]*s]\<close>\<close>

definition vec3_scale :: "vec \<Rightarrow> real \<Rightarrow> vec option" where
  "vec3_scale v s =
     do { v0 \<leftarrow> getitem v 0; v1 \<leftarrow> getitem v 1; v2 \<leftarrow> getitem v 2;
          Some [v0 * s, v1 * s, v2 * s] }"

text \<open>\<^verbatim>\<open>return math.sqrt(vec3_dot(v, v))\<close>\<close>

definition vec3_length :: "vec \<Rightarrow> real option" where
  "vec3_length v = do { d \<leftarrow> vec3_dot v v; math_sqrt d }"

text \<open>
  \<^verbatim>\<open>
  def vec3_normalize(v):
      length = vec3_length(v)
      if length > 0.0001:
          return vec3_scale(v, 1.0 / length)
      return v
  \<close>
\<close>

definition vec3_normalize :: "vec \<Rightarrow> vec option" where
  "vec3_normalize v =
     do { len \<leftarrow> vec3_length v;
          if len > 0.0001
          then do { s \<leftarrow> py_div 1 len; vec3_scale v s }
          else Some v }"

text \<open>
  \<^verbatim>\<open>
  def mat4_look_at(eye, target, up):
      f = vec3_normalize(vec3_sub(target, eye))
      r = vec3_normalize(vec3_cross(f, up))
      u = vec3_cross(r, f)
      m = mat4_identity()
      m[0][0] = r[0]; m[0][1] = r[1]; m[0][2] = r[2]
      m[1][0] = u[0]; m[1][1] = u[1]; m[1][2] = u[2]
      m[2][0] = -f[0]; m[2][1] = -f[1]; m[2][2] = -f[2]
      m[0][3] = -vec3_dot(r, eye)
      m[1][3] = -vec3_dot(u, eye)
      m[2][3] = vec3_dot(f, eye)
      return m
  \<close>
\<close>

definition mat4_look_at :: "vec \<Rightarrow> vec \<Rightarrow> vec \<Rightarrow> mat4 option" where
  "mat4_look_at eye target up =
     do { d \<leftarrow> vec3_sub target eye;
          f \<leftarrow> vec3_normalize d;
          c \<leftarrow> vec3_cross f up;
          r \<leftarrow> vec3_normalize c;
          u \<leftarrow> vec3_cross r f;
          let m = mat4_identity;
          r0 \<leftarrow> getitem r 0; m \<leftarrow> setitem2 m 0 0 r0;
          r1 \<leftarrow> getitem r 1; m \<leftarrow> setitem2 m 0 1 r1;
          r2 \<leftarrow> getitem r 2; m \<leftarrow> setitem2 m 0 2 r2;
          u0 \<leftarrow> getitem u 0; m \<leftarrow> setitem2 m 1 0 u0;
          u1 \<leftarrow> getitem u 1; m \<leftarrow> setitem2 m 1 1 u1;
          u2 \<leftarrow> getitem u 2; m \<leftarrow> setitem2 m 1 2 u2;
          f0 \<leftarrow> getitem f 0; m \<leftarrow> setitem2 m 2 0 (- f0);
          f1 \<leftarrow> getitem f 1; m \<leftarrow> setitem2 m 2 1 (- f1);
          f2 \<leftarrow> getitem f 2; m \<leftarrow> setitem2 m 2 2 (- f2);
          re \<leftarrow> vec3_dot r eye; m \<leftarrow> setitem2 m 0 3 (- re);
          ue \<leftarrow> vec3_dot u eye; m \<leftarrow> setitem2 m 1 3 (- ue);
          fe \<leftarrow> vec3_dot f eye; m \<leftarrow> setitem2 m 2 3 fe;
          Some m }"

subsection \<open>Cube geometry\<close>

definition CUBE_POSITIONS :: "vec list" where
  "CUBE_POSITIONS =
     [[-1, -1,  1], [ 1, -1,  1], [ 1,  1,  1], [-1,  1,  1],
      [ 1, -1, -1], [-1, -1, -1], [-1,  1, -1], [ 1,  1, -1],
      [-1,  1,  1], [ 1,  1,  1], [ 1,  1, -1], [-1,  1, -1],
      [-1, -1, -1], [ 1, -1, -1], [ 1, -1,  1], [-1, -1,  1],
      [ 1, -1,  1], [ 1, -1, -1], [ 1,  1, -1], [ 1,  1,  1],
      [-1, -1, -1], [-1, -1,  1], [-1,  1,  1], [-1,  1, -1]]"

definition CUBE_UVS :: "vec list" where
  "CUBE_UVS =
     [[0, 1], [1, 1], [1, 0], [0, 0],
      [0, 1], [1, 1], [1, 0], [0, 0],
      [0, 1], [1, 1], [1, 0], [0, 0],
      [0, 1], [1, 1], [1, 0], [0, 0],
      [0, 1], [1, 1], [1, 0], [0, 0],
      [0, 1], [1, 1], [1, 0], [0, 0]]"

definition FACE_COLORS :: "vec list" where
  "FACE_COLORS =
     [[1.0, 0.8, 0.8],
      [0.8, 1.0, 0.8],
      [0.8, 0.8, 1.0],
      [1.0, 1.0, 0.8],
      [1.0, 0.8, 1.0],
      [0.8, 1.0, 1.0]]"

definition CUBE_INDICES :: "nat list" where
  "CUBE_INDICES =
     [0, 1, 2,  0, 2, 3,
      4, 5, 6,  4, 6, 7,
      8, 9, 10, 8, 10, 11,
      12, 13, 14, 12, 14, 15,
      16, 17, 18, 16, 18, 19,
      20, 21, 22, 20, 22, 23]"

subsection \<open>Vertex transformation\<close>

text \<open>
  A device vertex is the dictionary that \<^verbatim>\<open>transform_vertex\<close> returns and
  \<^verbatim>\<open>send_vertex\<close> reads: a map from the key to the number stored under it.
\<close>

type_synonym vertex = "string \<rightharpoonup> real"

text \<open>
  \<^verbatim>\<open>
  def transform_vertex(pos, uv, color, mvp):
      clip = mat4_transform(mvp, [pos[0], pos[1], pos[2], 1.0])
      inv_w = 1.0 / clip[3]
      ndc_x = clip[0] * inv_w
      ndc_y = clip[1] * inv_w
      ndc_z = clip[2] * inv_w
      x = (ndc_x + 1.0) * 0.5 * SCREEN_WIDTH
      y = (1.0 - ndc_y) * 0.5 * SCREEN_HEIGHT
      z = (ndc_z + 1.0) * 0.5
      w = inv_w * 16.0
      return {'x': x, 'y': y, 'z': z, 'w': w,
              'u': uv[0], 'v': uv[1],
              'r': color[0], 'g': color[1], 'b': color[2],
              'a': 1.0}
  \<close>
\<close>

definition transform_vertex :: "vec \<Rightarrow> vec \<Rightarrow> vec \<Rightarrow> mat4 \<Rightarrow> vertex option" where
  "transform_vertex pos uv color mvp =
     do { p0 \<leftarrow> getitem pos 0; p1 \<leftarrow> getitem pos 1; p2 \<leftarrow> getitem pos 2;
          clip \<leftarrow> mat4_transform mvp [p0, p1, p2, 1.0];
          c3 \<leftarrow> getitem clip 3;
          inv_w \<leftarrow> py_div 1.0 c3;
          c0 \<leftarrow> getitem clip 0;
          let ndc_x = c0 * inv_w;
          c1 \<leftarrow> getitem clip 1;
          let ndc_y = c1 * inv_w;
          c2 \<leftarrow> getitem clip 2;
          let ndc_z = c2 * inv_w;
          let x = (ndc_x + 1.0) * 0.5 * SCREEN_WIDTH;
          let y = (1.0 - ndc_y) * 0.5 * SCREEN_HEIGHT;
          let z = (ndc_z + 1.0) * 0.5;
          let w = inv_w * 16.0;
          uv0 \<leftarrow> getitem uv 0; uv1 \<leftarrow> getitem uv 1;
          col0 \<leftarrow> getitem color 0; col1 \<leftarrow> getitem color 1; col2 \<leftarrow> getitem color 2;
          Some [''x'' \<mapsto> x, ''y'' \<mapsto> y, ''z'' \<mapsto> z, ''w'' \<mapsto> w,
                ''u'' \<mapsto> uv0, ''v'' \<mapsto> uv1,
                ''r'' \<mapsto> col0, ''g'' \<mapsto> col1, ''b'' \<mapsto> col2,
                ''a'' \<mapsto> 1.0] }"

subsection \<open>UART command functions\<close>

type_synonym byte = "8 word"

text \<open>The serial port: the bytes written so far. \<^verbatim>\<open>ser.write(data)\<close> appends.\<close>

type_synonym serial = "byte list"

definition ser_write :: "serial \<Rightarrow> byte list \<Rightarrow> serial" where
  "ser_write ser data = ser @ data"

text \<open>\<^verbatim>\<open>bytes([...])\<close>: ValueError unless every element is in \<open>range(256)\<close>.\<close>

definition py_bytes :: "int list \<Rightarrow> byte list option" where
  "py_bytes ns =
     (if list_all (\<lambda>n. 0 \<le> n \<and> n < 256) ns then Some (map word_of_int ns) else None)"

text \<open>
  The four bytes of an unsigned 32-bit value, least significant first: the format
  \<^verbatim>\<open><I\<close> of \<^verbatim>\<open>struct.pack\<close>.
\<close>

definition le32_bytes :: "int \<Rightarrow> byte list" where
  "le32_bytes n =
     [word_of_int n, word_of_int (drop_bit 8 n),
      word_of_int (drop_bit 16 n), word_of_int (drop_bit 24 n)]"

text \<open>
  \<^verbatim>\<open>struct.pack('<10I', a0, ..., a9)\<close>: struct.error unless there are exactly ten
  arguments, each an integer in \<open>0 .. 2^32 - 1\<close>; otherwise the forty bytes of the ten
  values in order.
\<close>

definition struct_pack_10I :: "int list \<Rightarrow> byte list option" where
  "struct_pack_10I args =
     (if length args = 10 \<and> list_all (\<lambda>n. 0 \<le> n \<and> n < 2 ^ 32) args
      then Some (concat (map le32_bytes args))
      else None)"

text \<open>
  \<^verbatim>\<open>
  def send_vertex(ser, v):
      data = struct.pack('<10I',
          float_to_fp(v['x']), float_to_fp(v['y']), float_to_fp(v['z']),
          float_to_fp(v['w']), float_to_fp(v['u']), float_to_fp(v['v']),
          float_to_fp(v['r']), float_to_fp(v['g']), float_to_fp(v['b']),
          float_to_fp(v['a']))
      ser.write(data)
  \<close>
  A key that the dictionary lacks raises KeyError.
\<close>

definition send_vertex :: "serial \<Rightarrow> vertex \<Rightarrow> serial option" where
  "send_vertex ser v =
     do { fx \<leftarrow> v ''x''; fy \<leftarrow> v ''y''; fz \<leftarrow> v ''z''; fw \<leftarrow> v ''w'';
          fu \<leftarrow> v ''u''; fv \<leftarrow> v ''v'';
          fr \<leftarrow> v ''r''; fg \<leftarrow> v ''g''; fb \<leftarrow> v ''b''; fa \<leftarrow> v ''a'';
          data \<leftarrow> struct_pack_10I
            [float_to_fp fx, float_to_fp fy, float_to_fp fz, float_to_fp fw,
             float_to_fp fu, float_to_fp fv,
             float_to_fp fr, float_to_fp fg, float_to_fp fb, float_to_fp fa];
          Some (ser_write ser data) }"

text \<open>
  \<^verbatim>\<open>
  def send_triangle(ser, v0, v1, v2):
      ser.write(bytes([CMD_TRIANGLE]))
      send_vertex(ser, v0)
      send_vertex(ser, v1)
      send_vertex(ser, v2)
  \<close>
\<close>

definition send_triangle :: "serial \<Rightarrow> vertex \<Rightarrow> vertex \<Rightarrow> vertex \<Rightarrow> serial option" where
  "send_triangle ser v0 v1 v2 =
     do { opcode \<leftarrow> py_bytes [CMD_TRIANGLE];
          let ser = ser_write ser opcode;
          ser \<leftarrow> send_vertex ser v0;
          ser \<leftarrow> send_vertex ser v1;
          send_vertex ser v2 }"

subsection \<open>The render loop of one frame\<close>

text \<open>
  The body of the loop over the triangles in \<^verbatim>\<open>main\<close>, up to the call of
  \<^verbatim>\<open>send_triangle\<close>: the three device vertices of the triangle whose first index is
  at position \<open>i\<close> of \<^const>\<open>CUBE_INDICES\<close>.
  \<^verbatim>\<open>
  face = i // 6
  color = FACE_COLORS[face]
  i0 = CUBE_INDICES[i]
  i1 = CUBE_INDICES[i + 1]
  i2 = CUBE_INDICES[i + 2]
  v0 = transform_vertex(CUBE_POSITIONS[i0], CUBE_UVS[i0], color, mvp)
  v1 = transform_vertex(CUBE_POSITIONS[i1], CUBE_UVS[i1], color, mvp)
  v2 = transform_vertex(CUBE_POSITIONS[i2], CUBE_UVS[i2], color, mvp)
  \<close>
\<close>

definition cube_triangle :: "mat4 \<Rightarrow> nat \<Rightarrow> (vertex \<times> vertex \<times> vertex) option" where
  "cube_triangle mvp i =
     do { let face = i div 6;
          color \<leftarrow> getitem FACE_COLORS face;
          i0 \<leftarrow> getitem CUBE_INDICES i;
          i1 \<leftarrow> getitem CUBE_INDICES (i + 1);
          i2 \<leftarrow> getitem CUBE_INDICES (i + 2);
          p0 \<leftarrow> getitem CUBE_POSITIONS i0; t0 \<leftarrow> getitem CUBE_UVS i0;
          v0 \<leftarrow> transform_vertex p0 t0 color mvp;
          p1 \<leftarrow> getitem CUBE_POSITIONS i1; t1 \<leftarrow> getitem CUBE_UVS i1;
          v1 \<leftarrow> transform_vertex p1 t1 color mvp;
          p2 \<leftarrow> getitem CUBE_POSITIONS i2; t2 \<leftarrow> getitem CUBE_UVS i2;
          v2 \<leftarrow> transform_vertex p2 t2 color mvp;
          Some (v0, v1, v2) }"

text \<open>
  \<^verbatim>\<open>
  for i in range(0, 36, 3):
      ...
      send_triangle(ser, v0, v1, v2)
  \<close>
\<close>

definition render_cube :: "serial \<Rightarrow> mat4 \<Rightarrow> serial option" where
  "render_cube ser mvp =
     for_each (py_range 0 36 3)
       (\<lambda>i ser. do { (v0, v1, v2) \<leftarrow> cube_triangle mvp i;
                      send_triangle ser v0 v1 v2 })
       ser"

subsection \<open>Well-formed inputs\<close>

text \<open>A 4\<times>4 matrix: four rows of four entries.\<close>

definition is_mat4 :: "mat4 \<Rightarrow> bool" where
  "is_mat4 m = (length m = 4 \<and> list_all (\<lambda>row. length row = 4) m)"

text \<open>The keys of a device vertex, in the order of the wire format.\<close>

definition VERTEX_KEYS :: "string list" where
  "VERTEX_KEYS = [''x'', ''y'', ''z'', ''w'', ''u'', ''v'', ''r'', ''g'', ''b'', ''a'']"

definition is_device_vertex :: "vertex \<Rightarrow> bool" where
  "is_device_vertex v = list_all (\<lambda>k. v k \<noteq> None) VERTEX_KEYS"

subsection \<open>The wire format of a triangle\<close>

text \<open>
  The byte layout that the peripheral expects, written from the protocol description
  and compared below with what \<^const>\<open>send_triangle\<close> writes: a vertex record is the
  ten fields in the order of \<^const>\<open>VERTEX_KEYS\<close>, each the four little-endian bytes of
  its fixed-point encoding; a triangle command is the opcode \<open>0x03\<close> and three records.
\<close>

definition wire_vertex_record :: "vertex \<Rightarrow> byte list" where
  "wire_vertex_record v =
     concat (map (\<lambda>k. le32_bytes (float_to_fp (the (v k)))) VERTEX_KEYS)"

definition wire_triangle :: "vertex \<Rightarrow> vertex \<Rightarrow> vertex \<Rightarrow> byte list" where
  "wire_triangle v0 v1 v2 =
     0x03 # wire_vertex_record v0 @ wire_vertex_record v1 @ wire_vertex_record v2"

section \<open>Fixed-point encoding\<close>

lemma and_ffffffff: "(k::int) AND 0xFFFFFFFF = k mod 2 ^ 32"
proof -
  have "(0xFFFFFFFF::int) = mask 32" by (simp add: mask_eq_exp_minus_1)
  then show ?thesis by (simp only: take_bit_eq_mask[symmetric] take_bit_eq_mod)
qed

lemma float_to_fp_mod: "float_to_fp x = py_int (x * 2 ^ 16) mod 2 ^ 32"
  by (simp add: float_to_fp_def FP_FRAC_BITS_def and_ffffffff Let_def)

lemma float_to_fp_range: "0 \<le> float_to_fp x \<and> float_to_fp x < 2 ^ 32"
  by (simp add: float_to_fp_mod)

text \<open>\<^const>\<open>py_int\<close> drops the fraction: the result is within one of the argument.\<close>

lemma py_int_close: "\<bar>real_of_int (py_int y) - y\<bar> < 1"
  unfolding py_int_def by (auto; linarith)

lemma py_int_nonneg: "0 \<le> y \<Longrightarrow> py_int y = \<lfloor>y\<rfloor>"
  by (simp add: py_int_def)

text \<open>Rounding toward zero: the magnitude is rounded down and the sign is kept.\<close>

lemma py_int_trunc: "py_int y = (if y < 0 then - \<lfloor>\<bar>y\<bar>\<rfloor> else \<lfloor>\<bar>y\<bar>\<rfloor>)"
  by (simp add: py_int_def ceiling_def)

lemma py_int_range:
  assumes "real_of_int lo \<le> y" "y < real_of_int hi" "lo \<le> 0" "0 < hi"
  shows "lo \<le> py_int y \<and> py_int y < hi"
proof (cases "0 \<le> y")
  case True
  then have "py_int y = \<lfloor>y\<rfloor>" by (simp add: py_int_def)
  moreover have "\<lfloor>y\<rfloor> < hi" using assms(2) by (simp add: floor_less_iff)
  moreover have "0 \<le> \<lfloor>y\<rfloor>" using True by simp
  ultimately show ?thesis using assms(3) by linarith
next
  case False
  then have "py_int y = \<lceil>y\<rceil>" by (simp add: py_int_def)
  moreover have "lo \<le> \<lceil>y\<rceil>" using assms(1) by (simp add: le_ceiling_iff)
  moreover have "\<lceil>y\<rceil> \<le> 0" using False by (simp add: ceiling_le_iff)
  ultimately show ?thesis using assms(4) by linarith
qed

lemma sint_of_mod:
  assumes "- (2 ^ 31) \<le> t" "t < 2 ^ 31"
  shows "sint (word_of_int (t mod 2 ^ 32) :: 32 word) = t"
proof -
  have "(word_of_int (t mod 2 ^ 32) :: 32 word) = word_of_int t"
    by (simp add: word_of_int_eq_iff take_bit_eq_mod)
  moreover have "sint (word_of_int t :: 32 word) = t"
    using assms by (simp add: sint_sbintrunc' signed_take_bit_int_eq_self)
  ultimately show ?thesis by simp
qed

lemma decode_encode:
  assumes "- 32768 \<le> x" "x < 32768"
  shows "\<bar>q15_16_decode (float_to_fp x) - x\<bar> < 1 / 2 ^ 16"
proof -
  define t where "t = py_int (x * 2 ^ 16)"
  have r: "- (2 ^ 31) \<le> t \<and> t < 2 ^ 31"
    unfolding t_def using assms by (intro py_int_range) simp_all
  have "float_to_fp x = t mod 2 ^ 32"
    unfolding t_def by (rule float_to_fp_mod)
  then have "sint (word_of_int (float_to_fp x) :: 32 word) = t"
    using r sint_of_mod[of t] by simp
  then have "q15_16_decode (float_to_fp x) = real_of_int t / 2 ^ 16"
    unfolding q15_16_decode_def by (simp only:)
  moreover have "\<bar>real_of_int t - x * 2 ^ 16\<bar> < 1"
    unfolding t_def by (rule py_int_close)
  ultimately have "\<bar>q15_16_decode (float_to_fp x) * 2 ^ 16 - x * 2 ^ 16\<bar> < 1"
    by simp
  then have "q15_16_decode (float_to_fp x) - x < 1 / 2 ^ 16"
    and "- (1 / 2 ^ 16) < q15_16_decode (float_to_fp x) - x"
    by (simp_all add: abs_less_iff)
  then show ?thesis by (simp only: abs_less_iff) simp
qed



section \<open>RGB565 packing\<close>

lemma py_int_neg_iff: "py_int y < 0 \<longleftrightarrow> y \<le> - 1"
  unfolding py_int_def by (auto simp: ceiling_less_iff floor_less_iff)

lemma or_low_field:
  assumes "0 \<le> l" "l < 2 ^ n"
  shows "push_bit n h OR l = push_bit n h + (l::int)"
proof -
  have "take_bit n l = l" using assms by (simp add: take_bit_int_eq_self)
  then have "push_bit n h OR l = concat_bit n l h"
    by (simp add: concat_bit_def or.commute)
  also have "\<dots> = take_bit n l + push_bit n h" by (rule concat_bit_eq)
  finally show ?thesis using \<open>take_bit n l = l\<close> by simp
qed

lemma and_low_field:
  assumes "0 \<le> l" "l < 2 ^ n"
  shows "push_bit n h AND l = (0::int)"
proof -
  have "take_bit n l = l" using assms by (simp add: take_bit_int_eq_self)
  moreover have "push_bit n h AND take_bit n l = 0"
    by (rule bit_eqI) (auto simp: bit_simps)
  ultimately show ?thesis by simp
qed

lemma pack_fields_sum:
  assumes "0 \<le> gi" "gi < 64" "0 \<le> bi" "bi < 32"
  shows "(push_bit 11 ri OR push_bit 5 gi) OR bi = ri * 2048 + gi * 32 + (bi::int)"
proof -
  have "push_bit 11 ri OR push_bit 5 gi = push_bit 5 (push_bit 6 ri OR gi)"
    by simp
  also have "push_bit 6 ri OR gi = push_bit 6 ri + gi"
    using assms by (intro or_low_field) simp_all
  finally have "(push_bit 11 ri OR push_bit 5 gi) OR bi = push_bit 5 (push_bit 6 ri + gi) + bi"
    using assms by (simp add: or_low_field)
  then show ?thesis by (simp add: push_bit_eq_mult)
qed


lemma py_int_range_pos:
  assumes "- 1 < y" "y < real_of_int hi" "0 < hi"
  shows "0 \<le> py_int y \<and> py_int y < hi"
proof (cases "0 \<le> y")
  case True
  then show ?thesis using assms py_int_range[of 0 y hi] by simp
next
  case False
  then have "\<lceil>y\<rceil> = 0" using assms(1) by (simp add: ceiling_eq_iff)
  then show ?thesis using False assms(3) by (simp add: py_int_def)
qed

lemma pack_rgb565_sum:
  assumes "- (1 / 63) < g" "- (1 / 31) < b"
  shows "pack_rgb565 r g b =
           py_int (min r 1 * 31) * 2048 + py_int (min g 1 * 63) * 32 + py_int (min b 1 * 31)"
proof -
  have g: "0 \<le> py_int (min g 1 * 63) \<and> py_int (min g 1 * 63) < 64"
    using assms(1) by (intro py_int_range_pos) (simp_all add: min_def)
  have b: "0 \<le> py_int (min b 1 * 31) \<and> py_int (min b 1 * 31) < 32"
    using assms(2) by (intro py_int_range_pos) (simp_all add: min_def)
  show ?thesis
    unfolding pack_rgb565_def Let_def using g b by (intro pack_fields_sum) simp_all
qed

lemma pack_rgb565_negative_iff:
  "pack_rgb565 r g b < 0 \<longleftrightarrow> r \<le> - (1 / 31) \<or> g \<le> - (1 / 63) \<or> b \<le> - (1 / 31)"
proof -
  have "py_int (min r 1 * 31) < 0 \<longleftrightarrow> r \<le> - (1 / 31)"
    by (auto simp: py_int_neg_iff min_def)
  moreover have "py_int (min g 1 * 63) < 0 \<longleftrightarrow> g \<le> - (1 / 63)"
    by (auto simp: py_int_neg_iff min_def)
  moreover have "py_int (min b 1 * 31) < 0 \<longleftrightarrow> b \<le> - (1 / 31)"
    by (auto simp: py_int_neg_iff min_def)
  ultimately show ?thesis
    by (simp add: pack_rgb565_def Let_def)
qed

lemma split_field:
  assumes "0 \<le> l" "l < m"
  shows "(h * m + l) div m = h" and "(h * m + l) mod m = (l::int)"
  using assms by simp_all

lemma field_extract:
  assumes "0 \<le> ri" "ri < 32" "0 \<le> gi" "gi < 64" "0 \<le> bi" "bi < 32"
  defines "v \<equiv> ri * 2048 + gi * 32 + (bi::int)"
  shows "0 \<le> v" and "v \<le> 0xFFFF" and "take_bit 5 (drop_bit 11 v) = ri"
    and "take_bit 6 (drop_bit 5 v) = gi" and "take_bit 5 v = bi"
proof -
  show "0 \<le> v" and "v \<le> 0xFFFF" using assms by simp_all
  have v1: "v = ri * 2048 + (gi * 32 + bi)" and v2: "v = (ri * 64 + gi) * 32 + bi"
    by (simp_all add: v_def)
  have "v div 2048 = ri"
    unfolding v1 using assms(3-6) by (intro split_field) simp_all
  then show "take_bit 5 (drop_bit 11 v) = ri"
    using assms(1,2) by (simp add: take_bit_eq_mod drop_bit_eq_div)
  have "v div 32 = ri * 64 + gi"
    unfolding v2 using assms(5,6) by (intro split_field) simp_all
  moreover have "(ri * 64 + gi) mod 64 = gi"
    using assms(3,4) by (intro split_field) simp_all
  ultimately show "take_bit 6 (drop_bit 5 v) = gi"
    by (simp add: take_bit_eq_mod drop_bit_eq_div)
  have "v mod 32 = bi"
    unfolding v2 using assms(5,6) by (intro split_field) simp_all
  then show "take_bit 5 v = bi" by (simp add: take_bit_eq_mod)
qed

lemma pack_rgb565_fields_nonneg:
  assumes "0 \<le> r" "0 \<le> g" "0 \<le> b"
  shows "0 \<le> py_int (min r 1 * 31) \<and> py_int (min r 1 * 31) < 32
       \<and> 0 \<le> py_int (min g 1 * 63) \<and> py_int (min g 1 * 63) < 64
       \<and> 0 \<le> py_int (min b 1 * 31) \<and> py_int (min b 1 * 31) < 32"
proof -
  have "0 \<le> py_int (min r 1 * 31) \<and> py_int (min r 1 * 31) < 32"
    using assms(1) by (intro py_int_range_pos) (simp_all add: min_def)
  moreover have "0 \<le> py_int (min g 1 * 63) \<and> py_int (min g 1 * 63) < 64"
    using assms(2) by (intro py_int_range_pos) (simp_all add: min_def)
  moreover have "0 \<le> py_int (min b 1 * 31) \<and> py_int (min b 1 * 31) < 32"
    using assms(3) by (intro py_int_range_pos) (simp_all add: min_def)
  ultimately show ?thesis by blast
qed

lemma pack_rgb565_examples:
  "pack_rgb565 1 1 1 = 0xFFFF" "pack_rgb565 0 0 0 = 0x0000" "pack_rgb565 1 0 0 = 0xF800"
  by (simp_all add: pack_rgb565_def py_int_def)




text \<open>
  C10. For all non-negative \<open>r\<close>, \<open>g\<close>, \<open>b\<close>, the three fields computed by
  \<^const>\<open>pack_rgb565\<close> fit their bit fields (red and blue in \<open>0..31\<close>, green in
  \<open>0..63\<close>), the shifted fields share no bit (each pairwise AND is 0, so the OR is
  their sum), and the result lies in \<open>[0, 0xFFFF]\<close>.
\<close>

theorem pack_rgb565_in_range:
  assumes "0 \<le> r" "0 \<le> g" "0 \<le> b"
  shows "0 \<le> pack_rgb565 r g b \<and> pack_rgb565 r g b \<le> 0xFFFF
       \<and> 0 \<le> py_int (min r 1 * 31) \<and> py_int (min r 1 * 31) \<le> 31
       \<and> 0 \<le> py_int (min g 1 * 63) \<and> py_int (min g 1 * 63) \<le> 63
       \<and> 0 \<le> py_int (min b 1 * 31) \<and> py_int (min b 1 * 31) \<le> 31
       \<and> push_bit 11 (py_int (min r 1 * 31)) AND push_bit 5 (py_int (min g 1 * 63)) = 0
       \<and> push_bit 11 (py_int (min r 1 * 31)) AND py_int (min b 1 * 31) = 0
       \<and> push_bit 5 (py_int (min g 1 * 63)) AND py_int (min b 1 * 31) = 0
       \<and> pack_rgb565 r g b =
           push_bit 11 (py_int (min r 1 * 31)) + push_bit 5 (py_int (min g 1 * 63))
             + py_int (min b 1 * 31)"
proof -
  define ri gi bi where "ri = py_int (min r 1 * 31)" and "gi = py_int (min g 1 * 63)"
    and "bi = py_int (min b 1 * 31)"
  have f: "0 \<le> ri" "ri < 32" "0 \<le> gi" "gi < 64" "0 \<le> bi" "bi < 32"
    using pack_rgb565_fields_nonneg[OF assms] by (simp_all add: ri_def gi_def bi_def)
  have v: "pack_rgb565 r g b = ri * 2048 + gi * 32 + bi"
    using assms by (simp add: pack_rgb565_sum ri_def gi_def bi_def)
  have rng: "0 \<le> pack_rgb565 r g b \<and> pack_rgb565 r g b \<le> 0xFFFF"
    unfolding v using field_extract(1,2)[OF f] by simp
  have "push_bit 11 ri AND push_bit 5 gi = push_bit 5 (push_bit 6 ri AND gi)"
    by simp
  also have "push_bit 6 ri AND gi = 0"
    using f by (intro and_low_field) simp_all
  finally have rg: "push_bit 11 ri AND push_bit 5 gi = 0" by simp
  have rb: "push_bit 11 ri AND bi = 0"
    using f by (intro and_low_field) simp_all
  have gb: "push_bit 5 gi AND bi = 0"
    using f by (intro and_low_field) simp_all
  have sum: "pack_rgb565 r g b = push_bit 11 ri + push_bit 5 gi + bi"
    unfolding v by (simp add: push_bit_eq_mult)
  show ?thesis
    using f rng rg rb gb sum unfolding ri_def gi_def bi_def by simp
qed

theorem pack_rgb565_in_range_witness:
  "(0 \<le> (4 / 5 :: real) \<and> 0 \<le> (1 :: real) \<and> 0 \<le> (2 :: real))
   \<and> pack_rgb565 (4 / 5) 1 2 = 0xC7FF
   \<and> 0 \<le> pack_rgb565 (4 / 5) 1 2 \<and> pack_rgb565 (4 / 5) 1 2 \<le> 0xFFFF
   \<and> py_int (min (4 / 5) 1 * 31) = 24 \<and> py_int (min 1 1 * 63) = 63
   \<and> py_int (min 2 1 * 31) = 31"
proof -
  have a: "0 \<le> (4 / 5 :: real)" "0 \<le> (1 :: real)" "0 \<le> (2 :: real)"
    by simp_all
  have b: "pack_rgb565 (4 / 5) 1 2 = 0xC7FF"
    by (simp add: pack_rgb565_def py_int_def)
  have c: "py_int (min (4 / 5) 1 * 31) = 24" "py_int (min 1 1 * 63) = 63"
    "py_int (min 2 1 * 31) = 31"
    by (simp_all add: py_int_def floor_eq_iff)
  show ?thesis
    using pack_rgb565_in_range[OF a] a b c by blast
qed

section \<open>Indexing explicit lists\<close>

lemma getitem_Nil [simp]: "getitem [] i = None"
  by (simp add: getitem_def)

lemma getitem_Cons_0 [simp]: "getitem (x # xs) 0 = Some x"
  by (simp add: getitem_def)

lemma getitem_Cons_Suc [simp]: "getitem (x # xs) (Suc n) = getitem xs n"
  by (simp add: getitem_def)

lemma getitem_Cons_numeral [simp]:
  "getitem (x # xs) (numeral k) = getitem xs (pred_numeral k)"
  by (simp add: getitem_def numeral_eq_Suc)

lemma getitem_Cons_1 [simp]: "getitem (x # xs) 1 = getitem xs 0"
  by (simp add: getitem_def)

lemma length_4_iff: "length xs = 4 \<longleftrightarrow> (\<exists>a b c d. xs = [a, b, c, d])"
  by (auto simp: length_Suc_conv eval_nat_numeral)

lemma length_3_iff: "length xs = 3 \<longleftrightarrow> (\<exists>a b c. xs = [a, b, c])"
  by (auto simp: length_Suc_conv eval_nat_numeral)

section \<open>Matrix product\<close>

lemma is_mat4_explicit:
  assumes "is_mat4 m"
  obtains a00 a01 a02 a03 a10 a11 a12 a13 a20 a21 a22 a23 a30 a31 a32 a33 where
    "m = [[a00, a01, a02, a03], [a10, a11, a12, a13],
          [a20, a21, a22, a23], [a30, a31, a32, a33]]"
proof -
  from assms obtain r0 r1 r2 r3 where m: "m = [r0, r1, r2, r3]"
    by (auto simp: is_mat4_def length_4_iff)
  with assms have "length r0 = 4" "length r1 = 4" "length r2 = 4" "length r3 = 4"
    by (simp_all add: is_mat4_def)
  then show ?thesis using m that
    unfolding length_4_iff by blast
qed

lemma mat4_multiply_explicit:
  "mat4_multiply
     [[a00, a01, a02, a03], [a10, a11, a12, a13], [a20, a21, a22, a23], [a30, a31, a32, a33]]
     [[b00, b01, b02, b03], [b10, b11, b12, b13], [b20, b21, b22, b23], [b30, b31, b32, b33]]
   = Some
     [[a00 * b00 + a01 * b10 + a02 * b20 + a03 * b30,
       a00 * b01 + a01 * b11 + a02 * b21 + a03 * b31,
       a00 * b02 + a01 * b12 + a02 * b22 + a03 * b32,
       a00 * b03 + a01 * b13 + a02 * b23 + a03 * b33],
      [a10 * b00 + a11 * b10 + a12 * b20 + a13 * b30,
       a10 * b01 + a11 * b11 + a12 * b21 + a13 * b31,
       a10 * b02 + a11 * b12 + a12 * b22 + a13 * b32,
       a10 * b03 + a11 * b13 + a12 * b23 + a13 * b33],
      [a20 * b00 + a21 * b10 + a22 * b20 + a23 * b30,
       a20 * b01 + a21 * b11 + a22 * b21 + a23 * b31,
       a20 * b02 + a21 * b12 + a22 * b22 + a23 * b32,
       a20 * b03 + a21 * b13 + a22 * b23 + a23 * b33],
      [a30 * b00 + a31 * b10 + a32 * b20 + a33 * b30,
       a30 * b01 + a31 * b11 + a32 * b21 + a33 * b31,
       a30 * b02 + a31 * b12 + a32 * b22 + a33 * b32,
       a30 * b03 + a31 * b13 + a32 * b23 + a33 * b33]]"
  by (simp add: mat4_multiply_def getitem2_def setitem2_def eval_nat_numeral)

lemma std_product_explicit:
  "map (\<lambda>i. map (\<lambda>j. \<Sum>k<4. A ! i ! k * B ! k ! j) [0..<4]) [0..<4] =
    [[A!0!0 * B!0!0 + A!0!1 * B!1!0 + A!0!2 * B!2!0 + A!0!3 * B!3!0,
      A!0!0 * B!0!1 + A!0!1 * B!1!1 + A!0!2 * B!2!1 + A!0!3 * B!3!1,
      A!0!0 * B!0!2 + A!0!1 * B!1!2 + A!0!2 * B!2!2 + A!0!3 * B!3!2,
      A!0!0 * B!0!3 + A!0!1 * B!1!3 + A!0!2 * B!2!3 + A!0!3 * B!3!3],
     [A!1!0 * B!0!0 + A!1!1 * B!1!0 + A!1!2 * B!2!0 + A!1!3 * B!3!0,
      A!1!0 * B!0!1 + A!1!1 * B!1!1 + A!1!2 * B!2!1 + A!1!3 * B!3!1,
      A!1!0 * B!0!2 + A!1!1 * B!1!2 + A!1!2 * B!2!2 + A!1!3 * B!3!2,
      A!1!0 * B!0!3 + A!1!1 * B!1!3 + A!1!2 * B!2!3 + A!1!3 * B!3!3],
     [A!2!0 * B!0!0 + A!2!1 * B!1!0 + A!2!2 * B!2!0 + A!2!3 * B!3!0,
      A!2!0 * B!0!1 + A!2!1 * B!1!1 + A!2!2 * B!2!1 + A!2!3 * B!3!1,
      A!2!0 * B!0!2 + A!2!1 * B!1!2 + A!2!2 * B!2!2 + A!2!3 * B!3!2,
      A!2!0 * B!0!3 + A!2!1 * B!1!3 + A!2!2 * B!2!3 + A!2!3 * B!3!3],
     [A!3!0 * B!0!0 + A!3!1 * B!1!0 + A!3!2 * B!2!0 + A!3!3 * B!3!0,
      A!3!0 * B!0!1 + A!3!1 * B!1!1 + A!3!2 * B!2!1 + A!3!3 * B!3!1,
      A!3!0 * B!0!2 + A!3!1 * B!1!2 + A!3!2 * B!2!2 + A!3!3 * B!3!2,
      A!3!0 * B!0!3 + A!3!1 * B!1!3 + A!3!2 * B!2!3 + A!3!3 * B!3!3]]"
  for A B :: "real list list"
  by (simp add: eval_nat_numeral lessThan_Suc upt_rec)

text \<open>
  C7. For all 4\<times>4 matrices \<open>A\<close> and \<open>B\<close>, \<^const>\<open>mat4_multiply\<close> returns (without
  an exception) the row-major product, whose entry in row \<open>i\<close> and column \<open>j\<close> is
  \<open>\<Sum>k<4. A[i][k] * B[k][j]\<close>; multiplying by \<^const>\<open>mat4_identity\<close> on the left
  or on the right gives the matrix back.
\<close>

theorem mat4_multiply_product_identity:
  assumes "is_mat4 A" "is_mat4 B"
  shows "mat4_multiply A B =
           Some (map (\<lambda>i. map (\<lambda>j. \<Sum>k<4. A ! i ! k * B ! k ! j) [0..<4]) [0..<4])
       \<and> mat4_multiply mat4_identity A = Some A
       \<and> mat4_multiply A mat4_identity = Some A"
proof -
  obtain a00 a01 a02 a03 a10 a11 a12 a13 a20 a21 a22 a23 a30 a31 a32 a33 where
    A: "A = [[a00, a01, a02, a03], [a10, a11, a12, a13],
             [a20, a21, a22, a23], [a30, a31, a32, a33]]"
    using assms(1) by (rule is_mat4_explicit)
  obtain b00 b01 b02 b03 b10 b11 b12 b13 b20 b21 b22 b23 b30 b31 b32 b33 where
    B: "B = [[b00, b01, b02, b03], [b10, b11, b12, b13],
             [b20, b21, b22, b23], [b30, b31, b32, b33]]"
    using assms(2) by (rule is_mat4_explicit)
  have "mat4_multiply A B =
           Some (map (\<lambda>i. map (\<lambda>j. \<Sum>k<4. A ! i ! k * B ! k ! j) [0..<4]) [0..<4])"
    unfolding std_product_explicit unfolding A B mat4_multiply_explicit
    by simp
  moreover have "mat4_multiply mat4_identity A = Some A"
    unfolding A mat4_identity_def mat4_multiply_explicit by simp
  moreover have "mat4_multiply A mat4_identity = Some A"
    unfolding A mat4_identity_def mat4_multiply_explicit by simp
  ultimately show ?thesis by blast
qed

theorem mat4_multiply_product_identity_witness:
  "is_mat4 [[1, 2, 3, 4], [5, 6, 7, 8], [9, 10, 11, 12], [13, 14, 15, 16]]
   \<and> mat4_multiply [[1, 2, 3, 4], [5, 6, 7, 8], [9, 10, 11, 12], [13, 14, 15, 16]]
                    [[1, 2, 3, 4], [5, 6, 7, 8], [9, 10, 11, 12], [13, 14, 15, 16]]
       = Some [[90, 100, 110, 120], [202, 228, 254, 280],
               [314, 356, 398, 440], [426, 484, 542, 600]]
   \<and> mat4_multiply mat4_identity [[1, 2, 3, 4], [5, 6, 7, 8], [9, 10, 11, 12], [13, 14, 15, 16]]
       = Some [[1, 2, 3, 4], [5, 6, 7, 8], [9, 10, 11, 12], [13, 14, 15, 16]]
   \<and> mat4_multiply [[1, 2, 3, 4], [5, 6, 7, 8], [9, 10, 11, 12], [13, 14, 15, 16]] mat4_identity
       = Some [[1, 2, 3, 4], [5, 6, 7, 8], [9, 10, 11, 12], [13, 14, 15, 16]]"
proof -
  define A :: mat4 where "A = [[1, 2, 3, 4], [5, 6, 7, 8], [9, 10, 11, 12], [13, 14, 15, 16]]"
  have a: "is_mat4 A" by (simp add: A_def is_mat4_def)
  have p: "map (\<lambda>i. map (\<lambda>j. \<Sum>k<4. A ! i ! k * A ! k ! j) [0..<4]) [0..<4]
           = [[90, 100, 110, 120], [202, 228, 254, 280],
              [314, 356, 398, 440], [426, 484, 542, 600]]"
    unfolding std_product_explicit by (simp add: A_def)
  show ?thesis
    using mat4_multiply_product_identity[OF a a] a unfolding p unfolding A_def by blast
qed

section \<open>Vectors\<close>

lemma vec3_dot_explicit [simp]:
  "vec3_dot [a0, a1, a2] [b0, b1, b2] = Some (a0 * b0 + a1 * b1 + a2 * b2)"
  by (simp add: vec3_dot_def)

lemma vec3_sub_explicit [simp]:
  "vec3_sub [a0, a1, a2] [b0, b1, b2] = Some [a0 - b0, a1 - b1, a2 - b2]"
  by (simp add: vec3_sub_def)

lemma vec3_cross_explicit [simp]:
  "vec3_cross [a0, a1, a2] [b0, b1, b2] =
     Some [a1 * b2 - a2 * b1, a2 * b0 - a0 * b2, a0 * b1 - a1 * b0]"
  by (simp add: vec3_cross_def)

lemma vec3_scale_explicit [simp]:
  "vec3_scale [v0, v1, v2] s = Some [v0 * s, v1 * s, v2 * s]"
  by (simp add: vec3_scale_def)

lemma vec3_length_explicit [simp]:
  "vec3_length [x, y, z] = Some (sqrt (x * x + y * y + z * z))"
proof -
  have "\<not> x * x + y * y + z * z < 0"
    by (simp add: not_less)
  then show ?thesis by (simp add: vec3_length_def math_sqrt_def)
qed

lemma vec3_normalize_explicit:
  "vec3_normalize [x, y, z] =
     Some (if sqrt (x * x + y * y + z * z) > 1 / 10000
           then [x * (1 / sqrt (x * x + y * y + z * z)),
                 y * (1 / sqrt (x * x + y * y + z * z)),
                 z * (1 / sqrt (x * x + y * y + z * z))]
           else [x, y, z])"
  by (simp add: vec3_normalize_def py_div_def)

lemma scaled_unit_length:
  fixes x y z :: real
  defines "l \<equiv> sqrt (x * x + y * y + z * z)"
  assumes "0 < l"
  shows "sqrt ((x * (1 / l)) * (x * (1 / l)) + (y * (1 / l)) * (y * (1 / l))
               + (z * (1 / l)) * (z * (1 / l))) = 1"
proof -
  have nn: "0 \<le> x * x + y * y + z * z"
    by simp
  then have sq: "l * l = x * x + y * y + z * z"
    unfolding l_def by simp
  have "(x * (1 / l)) * (x * (1 / l)) + (y * (1 / l)) * (y * (1 / l))
          + (z * (1 / l)) * (z * (1 / l)) = (x * x + y * y + z * z) / (l * l)"
    by (simp add: add_divide_distrib)
  also have "\<dots> = (l * l) / (l * l)" by (simp only: sq)
  also have "\<dots> = 1" using assms(2) by simp
  finally show ?thesis by simp
qed


lemma sqrt_25: "sqrt 25 = 5"
  by (rule real_sqrt_unique) simp_all

lemma sqrt_tiny: "sqrt (1 / 100000000) = 1 / 10000"
  by (rule real_sqrt_unique) (simp_all add: power2_eq_square)


section \<open>View matrix\<close>

lemma vec3_normalize_length:
  "vec3_normalize [x, y, z] = Some n \<Longrightarrow> length n = 3"
  by (auto simp: vec3_normalize_explicit split: if_splits)

lemma vec3_normalize_three:
  "\<exists>n0 n1 n2. vec3_normalize [x, y, z] = Some [n0, n1, n2]"
  unfolding vec3_normalize_explicit
  by (cases "sqrt (x * x + y * y + z * z) > 1 / 10000") simp_all

lemma mat4_look_at_core:
  "mat4_look_at [ex, ey, ez] [tx, ty, tz] [ux, uy, uz] =
     do { f \<leftarrow> vec3_normalize [tx - ex, ty - ey, tz - ez];
          c \<leftarrow> vec3_cross f [ux, uy, uz];
          r \<leftarrow> vec3_normalize c;
          u \<leftarrow> vec3_cross r f;
          re \<leftarrow> vec3_dot r [ex, ey, ez];
          ue \<leftarrow> vec3_dot u [ex, ey, ez];
          fe \<leftarrow> vec3_dot f [ex, ey, ez];
          Some [[r ! 0, r ! 1, r ! 2, - re],
                [u ! 0, u ! 1, u ! 2, - ue],
                [- (f ! 0), - (f ! 1), - (f ! 2), fe],
                [0, 0, 0, 1]] }"
proof -
  obtain f0 f1 f2 where f: "vec3_normalize [tx - ex, ty - ey, tz - ez] = Some [f0, f1, f2]"
    using vec3_normalize_three by blast
  obtain r0 r1 r2 where r:
    "vec3_normalize [f1 * uz - f2 * uy, f2 * ux - f0 * uz, f0 * uy - f1 * ux] = Some [r0, r1, r2]"
    using vec3_normalize_three by blast
  show ?thesis
    by (simp add: mat4_look_at_def f r mat4_identity_def setitem2_def)
qed


lemma vec3_normalize_cases:
  assumes "length v = 3" "vec3_normalize v = Some n" "vec3_length v = Some l"
  shows "(1 / 10000 < l \<longrightarrow>
            n = [v ! 0 * (1 / l), v ! 1 * (1 / l), v ! 2 * (1 / l)] \<and> vec3_length n = Some 1)
       \<and> (\<not> 1 / 10000 < l \<longrightarrow> n = v)"
proof -
  from assms(1) obtain x y z where v: "v = [x, y, z]"
    unfolding length_3_iff by blast
  have l: "l = sqrt (x * x + y * y + z * z)"
    using assms(3) unfolding v by simp
  have comps: "v ! 0 = x" "v ! 1 = y" "v ! 2 = z"
    by (simp_all add: v)
  show ?thesis
  proof (cases "1 / 10000 < l")
    case True
    then have n: "n = [x * (1 / l), y * (1 / l), z * (1 / l)]"
      using assms(2) unfolding v vec3_normalize_explicit l by simp
    have "0 < l" using True by simp
    then have "vec3_length [x * (1 / l), y * (1 / l), z * (1 / l)] = Some 1"
      unfolding vec3_length_explicit l by (simp only: scaled_unit_length)
    then show ?thesis using True unfolding comps n by blast
  next
    case False
    then have "n = v"
      using assms(2) unfolding v vec3_normalize_explicit l by simp
    then show ?thesis using False by blast
  qed
qed



lemma sqrt_16_25: "sqrt (16 / 25) = 4 / 5"
  by (rule real_sqrt_unique) (simp_all add: power2_eq_square)


section \<open>Vertex transformation\<close>

lemma length_2_iff: "length xs = 2 \<longleftrightarrow> (\<exists>a b. xs = [a, b])"
  by (auto simp: length_Suc_conv eval_nat_numeral)

lemma mat4_transform_explicit:
  "mat4_transform
     [[a00, a01, a02, a03], [a10, a11, a12, a13], [a20, a21, a22, a23], [a30, a31, a32, a33]]
     [v0, v1, v2, v3]
   = Some [a00 * v0 + a01 * v1 + a02 * v2 + a03 * v3,
           a10 * v0 + a11 * v1 + a12 * v2 + a13 * v3,
           a20 * v0 + a21 * v1 + a22 * v2 + a23 * v3,
           a30 * v0 + a31 * v1 + a32 * v2 + a33 * v3]"
  by (simp add: mat4_transform_def mat4_transform_row_def getitem2_def)

lemma transform_vertex_clip:
  assumes "mat4_transform mvp [px, py, pz, 1] = Some [cx, cy, cz, cw]"
  shows "transform_vertex [px, py, pz] [tu, tv] [cr, cg, cb] mvp =
     (if cw = 0 then None
      else Some [''x'' \<mapsto> (cx * (1 / cw) + 1) * 0.5 * 64,
                 ''y'' \<mapsto> (1 - cy * (1 / cw)) * 0.5 * 64,
                 ''z'' \<mapsto> (cz * (1 / cw) + 1) * 0.5,
                 ''w'' \<mapsto> (1 / cw) * 16,
                 ''u'' \<mapsto> tu, ''v'' \<mapsto> tv,
                 ''r'' \<mapsto> cr, ''g'' \<mapsto> cg, ''b'' \<mapsto> cb,
                 ''a'' \<mapsto> 1])"
  using assms
  by (simp add: transform_vertex_def py_div_def SCREEN_WIDTH_def SCREEN_HEIGHT_def Let_def)



lemma transform_vertex_fields:
  assumes "transform_vertex pos uv color mvp = Some dv"
  shows "dv ''a'' = Some 1" and "dv ''r'' = getitem color 0" and "dv ''g'' = getitem color 1"
    and "dv ''b'' = getitem color 2" and "dv ''u'' = getitem uv 0" and "dv ''v'' = getitem uv 1"
  using assms
  by (auto simp: transform_vertex_def Let_def split: bind_splits)

lemma transform_vertex_shape:
  assumes "transform_vertex pos uv color mvp = Some dv"
  obtains x y z w u v r g b where
    "dv = [''x'' \<mapsto> x, ''y'' \<mapsto> y, ''z'' \<mapsto> z, ''w'' \<mapsto> w, ''u'' \<mapsto> u, ''v'' \<mapsto> v,
           ''r'' \<mapsto> r, ''g'' \<mapsto> g, ''b'' \<mapsto> b, ''a'' \<mapsto> 1]"
  using assms
  by (auto simp: transform_vertex_def Let_def split: bind_splits)

lemma transform_vertex_is_device_vertex:
  assumes "transform_vertex pos uv color mvp = Some dv"
  shows "is_device_vertex dv"
proof -
  from assms obtain x y z w u v r g b where
    "dv = [''x'' \<mapsto> x, ''y'' \<mapsto> y, ''z'' \<mapsto> z, ''w'' \<mapsto> w, ''u'' \<mapsto> u, ''v'' \<mapsto> v,
           ''r'' \<mapsto> r, ''g'' \<mapsto> g, ''b'' \<mapsto> b, ''a'' \<mapsto> 1]"
    by (rule transform_vertex_shape)
  then show ?thesis
    by (simp add: is_device_vertex_def VERTEX_KEYS_def)
qed

lemma float_to_fp_one: "float_to_fp 1 = 0x10000"
  by (simp add: float_to_fp_mod py_int_def)

lemma wire_vertex_record_alpha:
  "drop 36 (wire_vertex_record v) = le32_bytes (float_to_fp (the (v ''a'')))"
  by (simp add: wire_vertex_record_def VERTEX_KEYS_def le32_bytes_def)

section \<open>Triangle command\<close>

lemma length_le32_bytes [simp]: "length (le32_bytes n) = 4"
  by (simp add: le32_bytes_def)

lemma length_wire_vertex_record: "length (wire_vertex_record v) = 40"
  by (simp add: wire_vertex_record_def VERTEX_KEYS_def)

lemma struct_pack_float_to_fp:
  "struct_pack_10I
     [float_to_fp f0, float_to_fp f1, float_to_fp f2, float_to_fp f3, float_to_fp f4,
      float_to_fp f5, float_to_fp f6, float_to_fp f7, float_to_fp f8, float_to_fp f9]
   = Some (concat (map (\<lambda>f. le32_bytes (float_to_fp f)) [f0, f1, f2, f3, f4, f5, f6, f7, f8, f9]))"
  using float_to_fp_range by (simp add: struct_pack_10I_def)

lemma send_vertex_record:
  assumes "is_device_vertex v"
  shows "send_vertex ser v = Some (ser @ wire_vertex_record v)"
proof -
  from assms obtain fx fy fz fw fu fv fr fg fb fa where
    k: "v ''x'' = Some fx" "v ''y'' = Some fy" "v ''z'' = Some fz" "v ''w'' = Some fw"
       "v ''u'' = Some fu" "v ''v'' = Some fv" "v ''r'' = Some fr" "v ''g'' = Some fg"
       "v ''b'' = Some fb" "v ''a'' = Some fa"
    by (auto simp: is_device_vertex_def VERTEX_KEYS_def)
  show ?thesis
    by (simp add: send_vertex_def k struct_pack_float_to_fp ser_write_def
        wire_vertex_record_def VERTEX_KEYS_def)
qed

lemma send_vertex_missing_key:
  assumes "\<not> is_device_vertex v"
  shows "send_vertex ser v = None"
  using assms
  by (auto simp: send_vertex_def is_device_vertex_def VERTEX_KEYS_def split: bind_splits)

lemma take_bit_8_split:
  fixes n :: int
  assumes "0 \<le> n" "n < 2 ^ 32"
  shows "take_bit 8 n + 2 ^ 8 * take_bit 8 (drop_bit 8 n) + 2 ^ 16 * take_bit 8 (drop_bit 16 n)
           + 2 ^ 24 * take_bit 8 (drop_bit 24 n) = n"
proof -
  have "drop_bit 24 n < 2 ^ 8"
    using assms by (simp add: drop_bit_eq_div)
  moreover have "0 \<le> drop_bit 24 n" using assms by simp
  ultimately have top: "take_bit 8 (drop_bit 24 n) = drop_bit 24 n"
    by (simp add: take_bit_int_eq_self)
  have s: "take_bit k m + 2 ^ k * drop_bit k m = m" for k and m :: int
    by (simp add: take_bit_eq_mod drop_bit_eq_div)
  have "drop_bit 16 n = take_bit 8 (drop_bit 16 n) + 2 ^ 8 * drop_bit 24 n"
    using s[of 8 "drop_bit 16 n"] by simp
  moreover have "drop_bit 8 n = take_bit 8 (drop_bit 8 n) + 2 ^ 8 * drop_bit 16 n"
    using s[of 8 "drop_bit 8 n"] by simp
  moreover have "n = take_bit 8 n + 2 ^ 8 * drop_bit 8 n"
    using s[of 8 n] by simp
  ultimately show ?thesis unfolding top by simp
qed

lemma le32_bytes_little_endian:
  assumes "0 \<le> n" "n < 2 ^ 32"
  shows "\<exists>b0 b1 b2 b3. le32_bytes n = [b0, b1, b2, b3]
           \<and> uint b0 + 2 ^ 8 * uint b1 + 2 ^ 16 * uint b2 + 2 ^ 24 * uint b3 = n"
  using take_bit_8_split[OF assms]
  by (simp add: le32_bytes_def uint_word_of_int_eq)





section \<open>Render loop\<close>

lemma getitem_in_range: "i < length xs \<Longrightarrow> getitem xs i = Some (xs ! i)"
  by (simp add: getitem_def)

lemma py_range_triangles: "py_range 0 36 3 = map (\<lambda>t. 3 * t) [0..<12]"
  by (simp add: py_range_def mult.commute)

lemma py_range_triangles_nth:
  assumes "t < 12"
  shows "py_range 0 36 3 ! t = 3 * t"
  using assms unfolding py_range_triangles by simp

lemma cube_lengths:
  "length FACE_COLORS = 6" "length CUBE_INDICES = 36"
  "length CUBE_POSITIONS = 24" "length CUBE_UVS = 24"
  by (simp_all add: FACE_COLORS_def CUBE_INDICES_def CUBE_POSITIONS_def CUBE_UVS_def)

lemma cube_index_bound:
  assumes "k < 36"
  shows "CUBE_INDICES ! k < 24"
proof -
  have "list_all (\<lambda>i. i < 24) CUBE_INDICES"
    by (simp add: CUBE_INDICES_def)
  then show ?thesis
    using assms by (simp add: list_all_length cube_lengths)
qed

lemma face_color_length:
  assumes "k < 6"
  shows "length (FACE_COLORS ! k) = 3"
proof -
  have "list_all (\<lambda>c. length c = 3) FACE_COLORS"
    by (simp add: FACE_COLORS_def)
  then show ?thesis
    using assms by (simp add: list_all_length cube_lengths)
qed

lemma cube_triangle_body:
  assumes "t < 12"
  shows "cube_triangle mvp (3 * t) =
     do { v0 \<leftarrow> transform_vertex (CUBE_POSITIONS ! (CUBE_INDICES ! (3 * t)))
                 (CUBE_UVS ! (CUBE_INDICES ! (3 * t))) (FACE_COLORS ! (t div 2)) mvp;
          v1 \<leftarrow> transform_vertex (CUBE_POSITIONS ! (CUBE_INDICES ! (3 * t + 1)))
                 (CUBE_UVS ! (CUBE_INDICES ! (3 * t + 1))) (FACE_COLORS ! (t div 2)) mvp;
          v2 \<leftarrow> transform_vertex (CUBE_POSITIONS ! (CUBE_INDICES ! (3 * t + 2)))
                 (CUBE_UVS ! (CUBE_INDICES ! (3 * t + 2))) (FACE_COLORS ! (t div 2)) mvp;
          Some (v0, v1, v2) }"
proof -
  have face: "3 * t div 6 = t div 2" by simp
  have "t div 2 < 6" using assms by simp
  then have col: "getitem FACE_COLORS (t div 2) = Some (FACE_COLORS ! (t div 2))"
    by (simp add: getitem_in_range cube_lengths)
  have k: "3 * t < 36" "3 * t + 1 < 36" "3 * t + 2 < 36"
    using assms by simp_all
  have idx: "getitem CUBE_INDICES (3 * t) = Some (CUBE_INDICES ! (3 * t))"
    "getitem CUBE_INDICES (3 * t + 1) = Some (CUBE_INDICES ! (3 * t + 1))"
    "getitem CUBE_INDICES (3 * t + 2) = Some (CUBE_INDICES ! (3 * t + 2))"
    using k by (simp_all add: getitem_in_range cube_lengths)
  have pos: "getitem CUBE_POSITIONS (CUBE_INDICES ! j) = Some (CUBE_POSITIONS ! (CUBE_INDICES ! j))"
    and uvs: "getitem CUBE_UVS (CUBE_INDICES ! j) = Some (CUBE_UVS ! (CUBE_INDICES ! j))"
    if "j < 36" for j
    using cube_index_bound[OF that] by (simp_all add: getitem_in_range cube_lengths)
  show ?thesis
    unfolding cube_triangle_def Let_def face
    by (simp only: col idx pos[OF k(1)] pos[OF k(2)] pos[OF k(3)]
        uvs[OF k(1)] uvs[OF k(2)] uvs[OF k(3)] bind.bind_lunit)
qed

lemma transform_vertex_colour:
  assumes "transform_vertex pos uv color mvp = Some dv" "length color = 3"
  shows "[dv ''r'', dv ''g'', dv ''b''] = map Some color"
proof -
  from assms(2) obtain cr cg cb where c: "color = [cr, cg, cb]"
    unfolding length_3_iff by blast
  show ?thesis
    using transform_vertex_fields(2-4)[OF assms(1)] unfolding c by simp
qed

text \<open>
  C8. The render loop runs over the twelve index positions \<open>0, 3, .., 33\<close>. For every
  triangle \<open>t\<close> in \<open>0..11\<close> the loop index is \<open>3 * t\<close>, the face index
  \<open>(3 * t) // 6\<close> is \<open>t // 2\<close>, the lookup \<open>FACE_COLORS[t // 2]\<close> succeeds, and that
  colour is the one passed to \<^const>\<open>transform_vertex\<close> for each of the three
  vertices; so whenever the three transforms return, the r, g, b of all three device
  vertices are \<open>FACE_COLORS[t // 2]\<close>.
\<close>

theorem cube_triangle_face_color:
  assumes "t < 12"
  shows "length (py_range 0 36 3) = 12 \<and> py_range 0 36 3 ! t = 3 * t
       \<and> (3 * t) div 6 = t div 2
       \<and> getitem FACE_COLORS (t div 2) = Some (FACE_COLORS ! (t div 2))
       \<and> cube_triangle mvp (py_range 0 36 3 ! t) =
           do { v0 \<leftarrow> transform_vertex (CUBE_POSITIONS ! (CUBE_INDICES ! (3 * t)))
                       (CUBE_UVS ! (CUBE_INDICES ! (3 * t))) (FACE_COLORS ! (t div 2)) mvp;
                v1 \<leftarrow> transform_vertex (CUBE_POSITIONS ! (CUBE_INDICES ! (3 * t + 1)))
                       (CUBE_UVS ! (CUBE_INDICES ! (3 * t + 1))) (FACE_COLORS ! (t div 2)) mvp;
                v2 \<leftarrow> transform_vertex (CUBE_POSITIONS ! (CUBE_INDICES ! (3 * t + 2)))
                       (CUBE_UVS ! (CUBE_INDICES ! (3 * t + 2))) (FACE_COLORS ! (t div 2)) mvp;
                Some (v0, v1, v2) }
       \<and> (\<forall>v0 v1 v2. cube_triangle mvp (py_range 0 36 3 ! t) = Some (v0, v1, v2) \<longrightarrow>
              [v0 ''r'', v0 ''g'', v0 ''b''] = map Some (FACE_COLORS ! (t div 2))
            \<and> [v1 ''r'', v1 ''g'', v1 ''b''] = map Some (FACE_COLORS ! (t div 2))
            \<and> [v2 ''r'', v2 ''g'', v2 ''b''] = map Some (FACE_COLORS ! (t div 2)))"
proof -
  have n: "py_range 0 36 3 ! t = 3 * t"
    using assms by (rule py_range_triangles_nth)
  have len: "length (py_range 0 36 3) = 12"
    unfolding py_range_triangles by simp
  have "t div 2 < 6" using assms by simp
  then have col: "getitem FACE_COLORS (t div 2) = Some (FACE_COLORS ! (t div 2))"
    and c3: "length (FACE_COLORS ! (t div 2)) = 3"
    by (simp_all add: getitem_in_range cube_lengths face_color_length)
  note body = cube_triangle_body[OF assms, of mvp]
  have colours:
    "[v0 ''r'', v0 ''g'', v0 ''b''] = map Some (FACE_COLORS ! (t div 2))
     \<and> [v1 ''r'', v1 ''g'', v1 ''b''] = map Some (FACE_COLORS ! (t div 2))
     \<and> [v2 ''r'', v2 ''g'', v2 ''b''] = map Some (FACE_COLORS ! (t div 2))"
    if "cube_triangle mvp (3 * t) = Some (v0, v1, v2)" for v0 v1 v2
  proof -
    from that[unfolded body] have
      "transform_vertex (CUBE_POSITIONS ! (CUBE_INDICES ! (3 * t)))
         (CUBE_UVS ! (CUBE_INDICES ! (3 * t))) (FACE_COLORS ! (t div 2)) mvp = Some v0"
      "transform_vertex (CUBE_POSITIONS ! (CUBE_INDICES ! (3 * t + 1)))
         (CUBE_UVS ! (CUBE_INDICES ! (3 * t + 1))) (FACE_COLORS ! (t div 2)) mvp = Some v1"
      "transform_vertex (CUBE_POSITIONS ! (CUBE_INDICES ! (3 * t + 2)))
         (CUBE_UVS ! (CUBE_INDICES ! (3 * t + 2))) (FACE_COLORS ! (t div 2)) mvp = Some v2"
      by (auto split: bind_splits)
    then show ?thesis
      using c3 by (simp only: transform_vertex_colour)
  qed
  have face: "(3 * t) div 6 = t div 2" by simp
  show ?thesis
    unfolding n using len face col body colours by blast
qed


lemma transform_vertex_identity:
  "transform_vertex [px, py, pz] [tu, tv] [cr, cg, cb] mat4_identity =
     Some [''x'' \<mapsto> (px * (1 / 1) + 1) * 0.5 * 64,
           ''y'' \<mapsto> (1 - py * (1 / 1)) * 0.5 * 64,
           ''z'' \<mapsto> (pz * (1 / 1) + 1) * 0.5,
           ''w'' \<mapsto> (1 / 1) * 16,
           ''u'' \<mapsto> tu, ''v'' \<mapsto> tv,
           ''r'' \<mapsto> cr, ''g'' \<mapsto> cg, ''b'' \<mapsto> cb,
           ''a'' \<mapsto> 1]"
proof -
  have "mat4_transform mat4_identity [px, py, pz, 1] = Some [px, py, pz, 1]"
    unfolding mat4_identity_def mat4_transform_explicit by simp
  from transform_vertex_clip[OF this] show ?thesis by simp
qed

theorem cube_triangle_face_color_witness:
  "(5::nat) < 12 \<and> py_range 0 36 3 ! 5 = 15
   \<and> FACE_COLORS ! (5 div 2) = [4 / 5, 4 / 5, 1]
   \<and> (\<exists>v0 v1 v2. cube_triangle mat4_identity 15 = Some (v0, v1, v2)
        \<and> [v0 ''r'', v0 ''g'', v0 ''b''] = [Some (4 / 5), Some (4 / 5), Some 1]
        \<and> [v1 ''r'', v1 ''g'', v1 ''b''] = [Some (4 / 5), Some (4 / 5), Some 1]
        \<and> [v2 ''r'', v2 ''g'', v2 ''b''] = [Some (4 / 5), Some (4 / 5), Some 1])"
proof -
  have a: "(5::nat) < 12" by simp
  have n: "py_range 0 36 3 ! 5 = 15"
    using py_range_triangles_nth[OF a] by simp
  have c: "FACE_COLORS ! (5 div 2) = [4 / 5, 4 / 5, 1]"
    by (simp add: FACE_COLORS_def)
  obtain v0 v1 v2 where ct: "cube_triangle mat4_identity 15 = Some (v0, v1, v2)"
    by (simp add: cube_triangle_def FACE_COLORS_def CUBE_INDICES_def CUBE_POSITIONS_def
        CUBE_UVS_def transform_vertex_identity)
  from cube_triangle_face_color[OF a, of mat4_identity] ct
  have "[v0 ''r'', v0 ''g'', v0 ''b''] = map Some (FACE_COLORS ! (5 div 2))
      \<and> [v1 ''r'', v1 ''g'', v1 ''b''] = map Some (FACE_COLORS ! (5 div 2))
      \<and> [v2 ''r'', v2 ''g'', v2 ''b''] = map Some (FACE_COLORS ! (5 div 2))"
    unfolding n by blast
  then show ?thesis
    using a n c ct unfolding c by auto
qed

end
